theory Spec2Isabelle
  imports Main "HOL-Library.Char_ord" "HOL-Library.List_Lexorder"
begin

section \<open>Exceptions and outcomes\<close>

text \<open>
  The Python exceptions the dataset layer of \<^verbatim>\<open>emorec/dataset/dataset.py\<close> can raise,
  either by its one explicit \<^verbatim>\<open>raise\<close> or out of a list, dictionary or numpy operation.
  \<open>exn_name\<close> is the name of the exception's class.
\<close>

datatype exn = AttributeError | IndexError | KeyError | NotImplementedError | TypeError | ValueError

fun exn_name :: "exn \<Rightarrow> string" where
  "exn_name AttributeError = ''AttributeError''"
| "exn_name IndexError = ''IndexError''"
| "exn_name KeyError = ''KeyError''"
| "exn_name NotImplementedError = ''NotImplementedError''"
| "exn_name TypeError = ''TypeError''"
| "exn_name ValueError = ''ValueError''"

text \<open>
  A pure helper returns \<open>exn + 'a\<close>, with \<open>Inl\<close> for the exception. A constructor returns
  \<open>'a result\<close>. A method mutates its object in place, and an exception leaves the object as
  far as the method got, so a method returns the outcome together with the state at that
  point: \<open>unit result \<times> state\<close>.

  \<open>Undetermined\<close> stands for one situation: \<^verbatim>\<open>_reset_speaker_group_indices\<close> reads an entry
  of its \<^verbatim>\<open>np.empty\<close> buffer that no group has written. Python goes on with whatever the
  memory held; the program text does not determine what follows, and the model stops there.
\<close>

datatype 'a result = Returned 'a | Raised exn | Undetermined

section \<open>Python lists and dictionaries\<close>

text \<open>
  Indices are natural numbers throughout: every index of the source comes out of
  \<^verbatim>\<open>list.index\<close>, \<^verbatim>\<open>enumerate\<close>, \<^verbatim>\<open>np.arange\<close>, \<^verbatim>\<open>np.zeros\<close> or \<^verbatim>\<open>nonzero\<close>, none of which
  is negative. Strings are lists of characters with code points below 256, ordered by code
  point as Python orders them.
\<close>

definition py_getitem :: "'a list \<Rightarrow> nat \<Rightarrow> exn + 'a" where
  "py_getitem xs i = (if i < length xs then Inr (xs ! i) else Inl IndexError)"

text \<open>\<^verbatim>\<open>xs.index(v)\<close>: the position of the first occurrence, or \<^verbatim>\<open>ValueError\<close>.\<close>

definition first_index :: "'a list \<Rightarrow> 'a \<Rightarrow> nat" where
  "first_index xs v = length (takeWhile (\<lambda>u. u \<noteq> v) xs)"

definition py_index :: "'a list \<Rightarrow> 'a \<Rightarrow> exn + nat" where
  "py_index xs v = (if v \<in> set xs then Inr (first_index xs v) else Inl ValueError)"

text \<open>\<^verbatim>\<open>d[k]\<close> on a dictionary raises \<^verbatim>\<open>KeyError\<close> for a missing key; \<^verbatim>\<open>d.get(k, k)\<close> does not.\<close>

definition py_lookup :: "('k \<rightharpoonup> 'v) \<Rightarrow> 'k \<Rightarrow> exn + 'v" where
  "py_lookup m k = (case m k of None \<Rightarrow> Inl KeyError | Some v \<Rightarrow> Inr v)"

definition map_get :: "(string \<rightharpoonup> string) \<Rightarrow> string \<Rightarrow> string" where
  "map_get m c = (case m c of None \<Rightarrow> c | Some c' \<Rightarrow> c')"

text \<open>
  A list comprehension \<^verbatim>\<open>[f(a) for a in as]\<close> whose body can raise: the first exception
  ends it.
\<close>

fun traverse :: "('a \<Rightarrow> exn + 'b) \<Rightarrow> 'a list \<Rightarrow> exn + 'b list" where
  "traverse f [] = Inr []"
| "traverse f (a # as) =
     (case f a of
        Inl e \<Rightarrow> Inl e
      | Inr b \<Rightarrow> (case traverse f as of Inl e \<Rightarrow> Inl e | Inr bs \<Rightarrow> Inr (b # bs)))"

text \<open>\<^verbatim>\<open>sorted(set(xs))\<close>.\<close>

definition sorted_set :: "'a::linorder list \<Rightarrow> 'a list" where
  "sorted_set xs = sort (remdups xs)"

text \<open>
  \<^verbatim>\<open>a[idx]\<close> for a list \<^verbatim>\<open>idx\<close> of positions along the first axis of a numpy array
  (\<^verbatim>\<open>IndexError\<close> when a position is out of bounds), and \<^verbatim>\<open>cond.nonzero()\<close> for a
  boolean array.
\<close>

definition fancy :: "'a list \<Rightarrow> nat list \<Rightarrow> exn + 'a list" where
  "fancy xs idx =
     (if list_all (\<lambda>i. i < length xs) idx then Inr (map ((!) xs) idx) else Inl IndexError)"

definition nonzero :: "bool list \<Rightarrow> nat list" where
  "nonzero bs = filter ((!) bs) [0..<length bs]"

text \<open>\<^verbatim>\<open>str.lower\<close> on code points below 256.\<close>

definition lower_char :: "char \<Rightarrow> char" where
  "lower_char c =
     (let n = (of_char c :: nat)
      in if (65 \<le> n \<and> n \<le> 90) \<or> (192 \<le> n \<and> n \<le> 222 \<and> n \<noteq> 215)
         then char_of (n + 32) else c)"

definition lower :: "string \<Rightarrow> string" where
  "lower s = map lower_char s"

section \<open>Index arrays\<close>

text \<open>
  The one-dimensional numpy arrays of indices and labels. The element type matters in one
  way: \<^verbatim>\<open>np.array([])\<close> of an empty Python list is a \<^verbatim>\<open>float64\<close> array, which numpy
  refuses as an index (\<^verbatim>\<open>IndexError\<close>) and as the argument of \<^verbatim>\<open>np.bincount\<close>
  (\<^verbatim>\<open>TypeError\<close>, no safe cast to integers), and whose elements a Python list refuses as
  indices (\<^verbatim>\<open>TypeError\<close>). Concatenation with a \<^verbatim>\<open>float64\<close> array gives a \<^verbatim>\<open>float64\<close>
  array. The values are whole and non-negative either way.
\<close>

datatype dtype = int64 | float64

datatype ndarray = NDArray (dtype: dtype) (elems: "nat list")

definition np_array :: "nat list \<Rightarrow> ndarray" where
  "np_array vs = NDArray (if vs = [] then float64 else int64) vs"

definition np_zeros :: "nat \<Rightarrow> ndarray" where
  "np_zeros n = NDArray int64 (replicate n 0)"

definition np_take :: "ndarray \<Rightarrow> nat list \<Rightarrow> exn + ndarray" where
  "np_take a idx =
     (case fancy (elems a) idx of Inl e \<Rightarrow> Inl e | Inr vs \<Rightarrow> Inr (NDArray (dtype a) vs))"

definition np_index :: "ndarray \<Rightarrow> ndarray \<Rightarrow> exn + ndarray" where
  "np_index a b = (if dtype b = float64 then Inl IndexError else np_take a (elems b))"

definition np_unique :: "ndarray \<Rightarrow> ndarray" where
  "np_unique a = NDArray (dtype a) (sorted_set (elems a))"

text \<open>
  \<^verbatim>\<open>np.bincount(a, minlength=m)\<close>: one count per value from 0 up to the largest value
  present, and at least \<open>m\<close> counts.
\<close>

definition bins :: "nat list \<Rightarrow> nat" where
  "bins vs = (if vs = [] then 0 else Suc (fold max vs 0))"

definition np_bincount :: "ndarray \<Rightarrow> nat \<Rightarrow> exn + nat list" where
  "np_bincount a minlength =
     (if dtype a = float64 then Inl TypeError
      else Inr (map (count_list (elems a)) [0..<max minlength (bins (elems a))]))"

definition np_add :: "ndarray \<Rightarrow> nat \<Rightarrow> ndarray" where
  "np_add a k = NDArray (dtype a) (map (\<lambda>v. v + k) (elems a))"

definition np_concatenate :: "ndarray list \<Rightarrow> exn + ndarray" where
  "np_concatenate arrs =
     (if arrs = [] then Inl ValueError
      else Inr (NDArray (if list_ex (\<lambda>a. dtype a = float64) arrs then float64 else int64)
                  (concat (map elems arrs))))"

text \<open>\<^verbatim>\<open>np.repeat(np.arange(len(sizes)), sizes)\<close>.\<close>

definition np_repeat_arange :: "nat list \<Rightarrow> ndarray" where
  "np_repeat_arange sizes =
     NDArray int64 (concat (map (\<lambda>(i, n). replicate n i) (zip [0..<length sizes] sizes)))"

text \<open>
  \<^verbatim>\<open>xs[v]\<close> on a Python list with an element \<open>v\<close> of a numpy array, and the comprehension
  \<^verbatim>\<open>[xs[v] for v in a]\<close>.
\<close>

definition getitem_np :: "'a list \<Rightarrow> dtype \<Rightarrow> nat \<Rightarrow> exn + 'a" where
  "getitem_np xs dt v = (if dt = float64 then Inl TypeError else py_getitem xs v)"

definition getitems :: "'a list \<Rightarrow> ndarray \<Rightarrow> exn + 'a list" where
  "getitems xs a = traverse (getitem_np xs (dtype a)) (elems a)"

section \<open>Ragged feature containers\<close>

text \<open>
  A 2-D numpy array of shape \<open>(t, d)\<close> is its number of columns \<open>d\<close> and its \<open>t\<close>
  rows, in order; an array with no rows still has its feature dimension. A ragged feature
  container is a list of such arrays, one per instance.
\<close>

record 'a array2 =
  ncols :: nat
  rows :: "'a list list"

text \<open>\<^verbatim>\<open>np.cumsum\<close> on a list of non-negative lengths: the running totals.\<close>

fun cumsum_from :: "nat \<Rightarrow> nat list \<Rightarrow> nat list" where
  "cumsum_from acc [] = []"
| "cumsum_from acc (n # ns) = (acc + n) # cumsum_from (acc + n) ns"

definition cumsum :: "nat list \<Rightarrow> nat list" where
  "cumsum ns = cumsum_from 0 ns"

text \<open>
  The Python slice \<^verbatim>\<open>xs[st:en]\<close> for non-negative bounds: it is clipped to the list and
  empty when \<open>en \<le> st\<close>.
\<close>

definition py_slice :: "'a list \<Rightarrow> nat \<Rightarrow> nat \<Rightarrow> 'a list" where
  "py_slice xs st en = take (en - st) (drop st xs)"

text \<open>
  \<^verbatim>\<open>np.split(ary, indices, axis=0)\<close> with a list of indices: numpy cuts the rows at the
  division points \<^verbatim>\<open>[0] + indices + [len(ary)]\<close> and returns one sub-array per pair of
  neighbouring points.
\<close>

definition np_split :: "'a array2 \<Rightarrow> nat list \<Rightarrow> 'a array2 list" where
  "np_split ary indices =
     (let div_points = [0] @ indices @ [length (rows ary)]
      in map (\<lambda>(st, en). \<lparr>ncols = ncols ary, rows = py_slice (rows ary) st en\<rparr>)
           (zip div_points (tl div_points)))"

text \<open>
  \<^verbatim>\<open>np.concatenate\<close> along axis 0 raises \<^verbatim>\<open>ValueError\<close> on an empty sequence and
  when the arrays disagree on the feature dimension.
\<close>

definition np_concatenate2 :: "'a array2 list \<Rightarrow> exn + 'a array2" where
  "np_concatenate2 a =
     (case a of
        [] \<Rightarrow> Inl ValueError
      | x # xs \<Rightarrow>
          if list_all (\<lambda>y. ncols y = ncols x) xs
          then Inr \<lparr>ncols = ncols x, rows = concat (map rows a)\<rparr>
          else Inl ValueError)"

text \<open>
  \<^verbatim>\<open>_make_flat\<close> (dataset.py, lines 16-20) and \<^verbatim>\<open>_make_ragged\<close> (lines 23-27); an
  identifier cannot start with an underscore here.
\<close>

definition make_flat :: "'a array2 list \<Rightarrow> exn + ('a array2 \<times> nat list)" where
  "make_flat a =
     (let slices = map (\<lambda>x. length (rows x)) a
      in case np_concatenate2 a of
           Inl e \<Rightarrow> Inl e
         | Inr flat \<Rightarrow> Inr (flat, slices))"

definition make_ragged :: "'a array2 \<Rightarrow> nat list \<Rightarrow> 'a array2 list" where
  "make_ragged flat slices =
     (let indices = cumsum slices
      in np_split flat (butlast indices))"

section \<open>The three dataset classes\<close>

text \<open>
  The attributes of \<^verbatim>\<open>Dataset\<close>, \<^verbatim>\<open>LabelledDataset\<close> and \<^verbatim>\<open>CombinedDataset\<close>; each record
  extends the one before it, as each class extends the one before it, and a method of a
  base class works on every extension. \<open>x_matrix\<close> is the attribute \<^verbatim>\<open>_x\<close> and
  \<open>y_labels\<close> is \<^verbatim>\<open>_y\<close> (a field called \<open>x\<close> or \<open>y\<close> would take these names away from
  every variable). \<open>x_matrix\<close> holds one entry per instance, the rows along the first axis;
  what an entry is stays open. An attribute that a constructor may leave unset
  (\<^verbatim>\<open>_male_indices\<close>, \<^verbatim>\<open>_female_indices\<close>, and in a \<^verbatim>\<open>CombinedDataset\<close>
  \<^verbatim>\<open>_speaker_counts\<close> and \<^verbatim>\<open>_class_counts\<close>) is an option, \<open>None\<close> while unset. A set
  \<^verbatim>\<open>_male_indices\<close> is the one-element tuple that \<^verbatim>\<open>nonzero()\<close> returns; the field holds the
  array in it. The dictionary \<^verbatim>\<open>_labels\<close> of binarised views is left out: the
  constructor of \<^verbatim>\<open>LabelledDataset\<close> sets it, \<^verbatim>\<open>binarise\<close> updates it, and no other
  method reads it.
\<close>

record 'x dataset =
  corpus :: string
  names :: "string list"
  features :: "string list"
  x_matrix :: "'x list"
  speakers :: "string list"
  male_speakers :: "string list"
  female_speakers :: "string list"
  speaker_groups :: "string set list"
  speaker_indices :: ndarray
  speaker_counts :: "nat list option"
  speaker_group_indices :: ndarray
  male_indices :: "nat list option"
  female_indices :: "nat list option"

record 'x labelled_dataset = "'x dataset" +
  classes :: "string list"
  y_labels :: ndarray
  class_counts :: "nat list option"

record 'x combined_dataset = "'x labelled_dataset" +
  corpora :: "string list"
  corpus_indices :: ndarray
  corpus_counts :: "nat list"

definition n_instances :: "('x, 'm) dataset_scheme \<Rightarrow> nat" where
  "n_instances d = length (names d)"

section \<open>Dataset\<close>

text \<open>
  \<^verbatim>\<open>_reset_male_female_indices\<close> (lines 90-97). \<open>instance_speakers\<close> is
  \<^verbatim>\<open>np.array(self.speakers)[self.speaker_indices]\<close>.
\<close>

definition instance_speakers :: "('x, 'm) dataset_scheme \<Rightarrow> exn + string list" where
  "instance_speakers d =
     (if dtype (speaker_indices d) = float64 then Inl IndexError
      else fancy (speakers d) (elems (speaker_indices d)))"

definition reset_male_female_indices ::
  "('x, 'm) dataset_scheme \<Rightarrow> unit result \<times> ('x, 'm) dataset_scheme" where
  "reset_male_female_indices d =
     (if male_speakers d \<noteq> [] \<and> female_speakers d \<noteq> [] then
        (case instance_speakers d of
           Inl e \<Rightarrow> (Raised e, d)
         | Inr sp \<Rightarrow>
             (Returned (),
              d\<lparr>male_indices := Some (nonzero (map (\<lambda>s. s \<in> set (male_speakers d)) sp)),
                female_indices := Some (nonzero (map (\<lambda>s. s \<in> set (female_speakers d)) sp))\<rparr>))
      else (Returned (), d))"

text \<open>
  \<^verbatim>\<open>_reset_speaker_group_indices\<close> (lines 99-104). \<open>assign_groups\<close> is the double loop over
  the groups and their speakers: group \<open>i\<close> writes \<open>i\<close> at \<^verbatim>\<open>speakers.index(sp)\<close> for each
  of its speakers, so a later group overwrites an earlier one, and a speaker that is not in
  the list raises \<^verbatim>\<open>ValueError\<close>. The order in which a Python set is walked changes neither.
  An entry of the buffer is \<open>None\<close> until a group writes it.
\<close>

fun assign_groups ::
  "string list \<Rightarrow> nat \<Rightarrow> string set list \<Rightarrow> nat option list \<Rightarrow> exn + nat option list" where
  "assign_groups spk i [] stg = Inr stg"
| "assign_groups spk i (g # gs) stg =
     (if g \<subseteq> set spk
      then assign_groups spk (Suc i) gs
             (map (\<lambda>j. if spk ! j \<in> g \<and> first_index spk (spk ! j) = j then Some i else stg ! j)
                [0..<length stg])
      else Inl ValueError)"

definition reset_speaker_group_indices ::
  "('x, 'm) dataset_scheme \<Rightarrow> unit result \<times> ('x, 'm) dataset_scheme" where
  "reset_speaker_group_indices d =
     (case assign_groups (speakers d) 0 (speaker_groups d)
             (replicate (length (speakers d)) None) of
        Inl e \<Rightarrow> (Raised e, d)
      | Inr speaker_to_group \<Rightarrow>
          if dtype (speaker_indices d) = float64 then (Raised IndexError, d)
          else (case fancy speaker_to_group (elems (speaker_indices d)) of
                  Inl e \<Rightarrow> (Raised e, d)
                | Inr entries \<Rightarrow>
                    (case those entries of
                       None \<Rightarrow> (Undetermined, d)
                     | Some gs \<Rightarrow> (Returned (), d\<lparr>speaker_group_indices := NDArray int64 gs\<rparr>))))"

text \<open>
  \<^verbatim>\<open>Dataset.remove_instances\<close> (lines 106-140). \<open>kept_idx\<close> is the list \<^verbatim>\<open>idx\<close> of line 110;
  \<open>compact_speakers\<close> is the branch of lines 115-135, taken when fewer distinct speakers
  remain than the speaker list has; \<open>slice_indices\<close> is the branch of lines 137-140. In
  that branch \<^verbatim>\<open>self.male_indices[idx]\<close> raises \<^verbatim>\<open>AttributeError\<close> when the attribute was
  never set and \<^verbatim>\<open>TypeError\<close> when it was, since it then is a tuple and \<^verbatim>\<open>idx\<close> a list.
  No line of the method assigns \<^verbatim>\<open>_speaker_counts\<close>.
\<close>

definition kept_idx :: "string set \<Rightarrow> ('x, 'm) dataset_scheme \<Rightarrow> nat list" where
  "kept_idx keep d = filter (\<lambda>i. names d ! i \<in> keep) [0..<length (names d)]"

definition compact_speakers ::
  "nat list \<Rightarrow> ndarray \<Rightarrow> ndarray \<Rightarrow> ('x, 'm) dataset_scheme
     \<Rightarrow> unit result \<times> ('x, 'm) dataset_scheme" where
  "compact_speakers idx kept new_sp d =
     (case getitems (speakers d) new_sp of
        Inl e \<Rightarrow> (Raised e, d)
      | Inr new_speakers \<Rightarrow>
     (case traverse (\<lambda>v. case getitem_np (speakers d) (dtype kept) v of
                            Inl e \<Rightarrow> Inl e
                          | Inr s \<Rightarrow> py_index new_speakers s) (elems kept) of
        Inl e \<Rightarrow> (Raised e, d)
      | Inr ixs \<Rightarrow>
     (let d1 = d\<lparr>speaker_indices := np_array ixs, speakers := new_speakers\<rparr> in
      case np_take (speaker_group_indices d1) idx of
        Inl e \<Rightarrow> (Raised e, d1)
      | Inr kept_grp \<Rightarrow>
     (case getitems (speaker_groups d1) (np_unique kept_grp) of
        Inl e \<Rightarrow> (Raised e, d1)
      | Inr new_groups \<Rightarrow>
     (case reset_speaker_group_indices (d1\<lparr>speaker_groups := new_groups\<rparr>) of
        (Returned u, d2) \<Rightarrow>
          if male_speakers d2 \<noteq> [] \<and> female_speakers d2 \<noteq> [] then
            reset_male_female_indices
              (d2\<lparr>male_speakers := filter (\<lambda>s. s \<in> set (speakers d2)) (male_speakers d2),
                  female_speakers := filter (\<lambda>s. s \<in> set (speakers d2)) (female_speakers d2)\<rparr>)
          else (Returned (), d2)
      | r \<Rightarrow> r)))))"

definition slice_indices ::
  "nat list \<Rightarrow> ndarray \<Rightarrow> ('x, 'm) dataset_scheme \<Rightarrow> unit result \<times> ('x, 'm) dataset_scheme" where
  "slice_indices idx kept d =
     (let d1 = d\<lparr>speaker_indices := kept\<rparr> in
      case np_take (speaker_group_indices d1) idx of
        Inl e \<Rightarrow> (Raised e, d1)
      | Inr kept_grp \<Rightarrow>
          (let d2 = d1\<lparr>speaker_group_indices := kept_grp\<rparr> in
           case male_indices d2 of
             None \<Rightarrow> (Raised AttributeError, d2)
           | Some tuple \<Rightarrow> (Raised TypeError, d2)))"

definition remove_instances ::
  "string set \<Rightarrow> ('x, 'm) dataset_scheme \<Rightarrow> unit result \<times> ('x, 'm) dataset_scheme" where
  "remove_instances keep d =
     (let idx = kept_idx keep d;
          d1 = d\<lparr>names := map ((!) (names d)) idx\<rparr> in
      case fancy (x_matrix d1) idx of
        Inl e \<Rightarrow> (Raised e, d1)
      | Inr feats \<Rightarrow>
          (let d2 = d1\<lparr>x_matrix := feats\<rparr> in
           case np_take (speaker_indices d2) idx of
             Inl e \<Rightarrow> (Raised e, d2)
           | Inr kept \<Rightarrow>
               (let new_sp = np_unique kept in
                if length (elems new_sp) < length (speakers d2)
                then compact_speakers idx kept new_sp d2
                else slice_indices idx kept d2)))"

subsection \<open>Construction\<close>

text \<open>
  \<^verbatim>\<open>Dataset.__init__\<close> (lines 51-88). Three things it uses are not in the source tree and
  are arguments here: the backend classes of \<^verbatim>\<open>backend.py\<close> (each takes the path and gives
  the corpus name, the instance names, the feature names and the feature container, or
  raises), the registry \<^verbatim>\<open>corpora\<close> of \<^verbatim>\<open>corpora.py\<close>, and the dictionary that
  \<^verbatim>\<open>parse_annotations\<close> reads from the speaker file (\<open>None\<close> when no speaker path is given).
  A path is what \<^verbatim>\<open>pathlib\<close> makes of it; the constructor looks at its suffix only. The
  table \<^verbatim>\<open>_BACKENDS\<close> is lines 30-34. The \<^verbatim>\<open>try\<close> of lines 53-56 turns a \<^verbatim>\<open>KeyError\<close> into
  \<^verbatim>\<open>NotImplementedError\<close>, also one raised inside the backend class. The warning of line 82
  changes nothing.
\<close>

record path =
  path_text :: string
  suffix :: string

record 'x backend =
  backend_corpus :: string
  backend_names :: "string list"
  backend_feature_names :: "string list"
  backend_features :: "'x list"

record 'x backend_classes =
  NetCDFBackend :: "path \<Rightarrow> exn + 'x backend"
  RawAudioBackend :: "path \<Rightarrow> exn + 'x backend"
  ARFFBackend :: "path \<Rightarrow> exn + 'x backend"

definition BACKENDS :: "'x backend_classes \<Rightarrow> string \<rightharpoonup> (path \<Rightarrow> exn + 'x backend)" where
  "BACKENDS B = [''.nc'' \<mapsto> NetCDFBackend B, ''.txt'' \<mapsto> RawAudioBackend B,
                 ''.arff'' \<mapsto> ARFFBackend B]"

record corpus_info =
  info_male_speakers :: "string list"
  info_female_speakers :: "string list"
  info_speaker_groups :: "string set list"

text \<open>The class attributes \<^verbatim>\<open>_male_speakers\<close>, \<^verbatim>\<open>_female_speakers\<close>, \<^verbatim>\<open>_speaker_groups\<close>.\<close>

definition class_defaults :: corpus_info where
  "class_defaults =
     \<lparr>info_male_speakers = [], info_female_speakers = [], info_speaker_groups = []\<rparr>"

text \<open>Lines 63-76: the speaker list, the speaker index array and the registry entry.\<close>

definition speaker_annotation ::
  "(string \<rightharpoonup> corpus_info) \<Rightarrow> string \<Rightarrow> string list \<Rightarrow> (string \<rightharpoonup> string) option
     \<Rightarrow> exn + (string list \<times> ndarray \<times> corpus_info)" where
  "speaker_annotation registry corp nms speaker_path =
     (case speaker_path of
        Some spk_dict \<Rightarrow>
          (case traverse (py_lookup spk_dict) nms of
             Inl e \<Rightarrow> Inl e
           | Inr spk \<Rightarrow>
               (let spks = sorted_set spk in
                case traverse (py_index spks) spk of
                  Inl e \<Rightarrow> Inl e
                | Inr ixs \<Rightarrow>
                    Inr (spks, np_array ixs,
                         (case registry (lower corp) of
                            Some info \<Rightarrow> info
                          | None \<Rightarrow> class_defaults))))
      | None \<Rightarrow> Inr ([''unknown''], np_zeros (length nms), class_defaults))"

definition Dataset_init ::
  "'x backend_classes \<Rightarrow> (string \<rightharpoonup> corpus_info) \<Rightarrow> path \<Rightarrow> (string \<rightharpoonup> string) option
     \<Rightarrow> 'x dataset result" where
  "Dataset_init B registry p speaker_path =
     (case BACKENDS B (suffix p) of
        None \<Rightarrow> Raised NotImplementedError
      | Some backend_class \<Rightarrow>
     (case backend_class p of
        Inl e \<Rightarrow> Raised (if e = KeyError then NotImplementedError else e)
      | Inr backend \<Rightarrow>
     (case speaker_annotation registry (backend_corpus backend) (backend_names backend)
             speaker_path of
        Inl e \<Rightarrow> Raised e
      | Inr (spks, ixs, info) \<Rightarrow>
     (case np_bincount ixs (length spks) of
        Inl e \<Rightarrow> Raised e
      | Inr counts \<Rightarrow>
     (case reset_male_female_indices
             \<lparr>corpus = backend_corpus backend, names = backend_names backend,
              features = backend_feature_names backend, x_matrix = backend_features backend,
              speakers = spks, male_speakers = info_male_speakers info,
              female_speakers = info_female_speakers info,
              speaker_groups = info_speaker_groups info, speaker_indices = ixs,
              speaker_counts = Some counts, speaker_group_indices = NDArray int64 [],
              male_indices = None, female_indices = None\<rparr> of
        (Raised e, d1) \<Rightarrow> Raised e
      | (Undetermined, d1) \<Rightarrow> Undetermined
      | (Returned u, d1) \<Rightarrow>
     (case reset_speaker_group_indices
             (if speaker_groups d1 = []
              then d1\<lparr>speaker_groups := map (\<lambda>s. {s}) (speakers d1)\<rparr> else d1) of
        (Raised e, d2) \<Rightarrow> Raised e
      | (Undetermined, d2) \<Rightarrow> Undetermined
      | (Returned u, d2) \<Rightarrow> Returned d2))))))"

section \<open>LabelledDataset\<close>

text \<open>
  \<^verbatim>\<open>LabelledDataset.__init__\<close> (lines 316-328); \<open>label_dict\<close> is the dictionary that
  \<^verbatim>\<open>parse_annotations\<close> reads from the label file.
\<close>

definition LabelledDataset_init ::
  "'x backend_classes \<Rightarrow> (string \<rightharpoonup> corpus_info) \<Rightarrow> path \<Rightarrow> (string \<rightharpoonup> string)
     \<Rightarrow> (string \<rightharpoonup> string) option \<Rightarrow> 'x labelled_dataset result" where
  "LabelledDataset_init B registry p label_dict speaker_path =
     (case Dataset_init B registry p speaker_path of
        Raised e \<Rightarrow> Raised e
      | Undetermined \<Rightarrow> Undetermined
      | Returned d \<Rightarrow>
     (case traverse (py_lookup label_dict) (names d) of
        Inl e \<Rightarrow> Raised e
      | Inr labels \<Rightarrow>
     (let cls = sorted_set labels in
      case traverse (py_index cls) labels of
        Inl e \<Rightarrow> Raised e
      | Inr ys \<Rightarrow>
     (case np_bincount (np_array ys) 0 of
        Inl e \<Rightarrow> Raised e
      | Inr counts \<Rightarrow>
          Returned
            \<lparr>corpus = corpus d, names = names d, features = features d, x_matrix = x_matrix d,
             speakers = speakers d, male_speakers = male_speakers d,
             female_speakers = female_speakers d, speaker_groups = speaker_groups d,
             speaker_indices = speaker_indices d, speaker_counts = speaker_counts d,
             speaker_group_indices = speaker_group_indices d, male_indices = male_indices d,
             female_indices = female_indices d,
             classes = cls, y_labels = np_array ys, class_counts = Some counts\<rparr>))))"

text \<open>
  \<^verbatim>\<open>LabelledDataset.remove_instances\<close> (lines 330-342): it compacts the classes, recounts
  them (\<open>recount_classes\<close>, line 341) and then calls the method of the base class.
\<close>

definition recount_classes ::
  "string set \<Rightarrow> ('x, 'm) labelled_dataset_scheme
     \<Rightarrow> unit result \<times> ('x, 'm) labelled_dataset_scheme" where
  "recount_classes keep d =
     (case np_bincount (y_labels d) 0 of
        Inl e \<Rightarrow> (Raised e, d)
      | Inr counts \<Rightarrow> remove_instances keep (d\<lparr>class_counts := Some counts\<rparr>))"

definition remove_instances_labelled ::
  "string set \<Rightarrow> ('x, 'm) labelled_dataset_scheme
     \<Rightarrow> unit result \<times> ('x, 'm) labelled_dataset_scheme" where
  "remove_instances_labelled keep d =
     (let idx = kept_idx keep d in
      case np_take (y_labels d) idx of
        Inl e \<Rightarrow> (Raised e, d)
      | Inr kept \<Rightarrow>
          (let new_cl = np_unique kept in
           if length (elems new_cl) < length (classes d) then
             (case getitems (classes d) new_cl of
                Inl e \<Rightarrow> (Raised e, d)
              | Inr new_classes \<Rightarrow>
                  (case traverse (\<lambda>v. case getitem_np (classes d) (dtype kept) v of
                                         Inl e \<Rightarrow> Inl e
                                       | Inr c \<Rightarrow> py_index new_classes c) (elems kept) of
                     Inl e \<Rightarrow> (Raised e, d)
                   | Inr ys \<Rightarrow>
                       recount_classes keep (d\<lparr>y_labels := np_array ys, classes := new_classes\<rparr>)))
           else recount_classes keep (d\<lparr>y_labels := kept\<rparr>)))"

text \<open>\<^verbatim>\<open>map_classes\<close> (lines 360-369).\<close>

definition map_classes ::
  "(string \<rightharpoonup> string) \<Rightarrow> ('x, 'm) labelled_dataset_scheme
     \<Rightarrow> unit result \<times> ('x, 'm) labelled_dataset_scheme" where
  "map_classes m d =
     (let new_classes = sorted_set (map (map_get m) (classes d)) in
      case traverse (\<lambda>k. py_index new_classes (map_get m k)) (classes d) of
        Inl e \<Rightarrow> (Raised e, d)
      | Inr ixs \<Rightarrow>
          (case np_index (np_array ixs) (y_labels d) of
             Inl e \<Rightarrow> (Raised e, d)
           | Inr ys \<Rightarrow>
               (let d1 = d\<lparr>y_labels := ys\<rparr> in
                case np_bincount (y_labels d1) 0 of
                  Inl e \<Rightarrow> (Raised e, d1)
                | Inr counts \<Rightarrow>
                    (Returned (), d1\<lparr>class_counts := Some counts, classes := new_classes\<rparr>))))"

text \<open>
  \<^verbatim>\<open>remove_classes\<close> (lines 371-387). No line assigns \<^verbatim>\<open>_speakers\<close> or
  \<^verbatim>\<open>_speaker_groups\<close>; line 382 makes \<^verbatim>\<open>_speaker_group_indices\<close> the speaker index array
  itself.
\<close>

definition remove_classes ::
  "string set \<Rightarrow> ('x, 'm) labelled_dataset_scheme
     \<Rightarrow> unit result \<times> ('x, 'm) labelled_dataset_scheme" where
  "remove_classes keep d =
     (case traverse (py_getitem (classes d)) (elems (y_labels d)) of
        Inl e \<Rightarrow> (Raised e, d)
      | Inr str_labels \<Rightarrow>
     (let keep_idx = filter (\<lambda>i. str_labels ! i \<in> keep) [0..<length str_labels] in
      case fancy (x_matrix d) keep_idx of
        Inl e \<Rightarrow> (Raised e, d)
      | Inr feats \<Rightarrow>
     (let d1 = d\<lparr>x_matrix := feats\<rparr> in
      case traverse (py_getitem (names d1)) keep_idx of
        Inl e \<Rightarrow> (Raised e, d1)
      | Inr nms \<Rightarrow>
     (let d2 = d1\<lparr>names := nms\<rparr> in
      case np_take (speaker_indices d2) keep_idx of
        Inl e \<Rightarrow> (Raised e, d2)
      | Inr kept \<Rightarrow>
     (let d3 = d2\<lparr>speaker_indices := kept\<rparr> in
      case np_bincount (speaker_indices d3) (length (speakers d3)) of
        Inl e \<Rightarrow> (Raised e, d3)
      | Inr counts \<Rightarrow>
     (let d4 = d3\<lparr>speaker_counts := Some counts,
                  speaker_group_indices := speaker_indices d3,
                  classes := sorted_set (filter (\<lambda>c. c \<in> keep) (classes d3))\<rparr> in
      case traverse (py_index (classes d4)) (filter (\<lambda>c. c \<in> keep) str_labels) of
        Inl e \<Rightarrow> (Raised e, d4)
      | Inr ys \<Rightarrow>
     (let d5 = d4\<lparr>y_labels := np_array ys\<rparr> in
      case np_bincount (y_labels d5) 0 of
        Inl e \<Rightarrow> (Raised e, d5)
      | Inr ccounts \<Rightarrow> (Returned (), d5\<lparr>class_counts := Some ccounts\<rparr>))))))))"

text \<open>
  The state of the classes that the constructors establish (lemmas
  \<open>LabelledDataset_init_class_invariant\<close> and \<open>class_invariant_combined_AB\<close> below): the
  class list is sorted without repetition, and every label is an integer position in it.
\<close>

definition class_invariant :: "('x, 'm) labelled_dataset_scheme \<Rightarrow> bool" where
  "class_invariant d \<longleftrightarrow>
     sorted (classes d) \<and> distinct (classes d) \<and>
     dtype (y_labels d) = int64 \<and>
     list_all (\<lambda>v. v < length (classes d)) (elems (y_labels d))"

section \<open>CombinedDataset\<close>

text \<open>
  \<^verbatim>\<open>CombinedDataset.__init__\<close> (lines 437-478). \<open>combine_speakers\<close> is the loop of lines
  453-461, \<open>allow_list\<close> the class reconciliation of lines 467-476; \<open>labels\<close> is the optional
  allow-list. With an allow-list, lines 473-476 filter \<^verbatim>\<open>_x\<close>, \<^verbatim>\<open>_speaker_indices\<close> and the
  string labels; no line filters \<^verbatim>\<open>_names\<close>, \<^verbatim>\<open>_corpus_indices\<close> or \<^verbatim>\<open>_corpus_counts\<close>.
  The constructor does not call the constructors of the base classes, so
  \<^verbatim>\<open>_speaker_counts\<close>, \<^verbatim>\<open>_class_counts\<close>, \<^verbatim>\<open>_male_indices\<close> and \<^verbatim>\<open>_female_indices\<close> stay
  unset and the male and female speaker lists are the empty class attributes. The entries
  of \<open>x_matrix\<close> are opaque, so the agreement of the sources' feature dimensions, which
  \<^verbatim>\<open>np.concatenate\<close> of line 465 checks for dense arrays, is outside the model.
\<close>

definition namespaced :: "string \<Rightarrow> string \<Rightarrow> string" where
  "namespaced corp n = corp @ ''_'' @ n"

fun combine_speakers ::
  "('x, 'm) labelled_dataset_scheme list \<Rightarrow> string list \<Rightarrow> ndarray list \<Rightarrow> string set list
     \<Rightarrow> ndarray list \<Rightarrow> string list \<times> ndarray list \<times> string set list \<times> ndarray list" where
  "combine_speakers [] spk sp_ix grp grp_ix = (spk, sp_ix, grp, grp_ix)"
| "combine_speakers (d # ds) spk sp_ix grp grp_ix =
     combine_speakers ds
       (spk @ map (namespaced (corpus d)) (speakers d))
       (sp_ix @ [np_add (speaker_indices d) (length spk)])
       (grp @ map (\<lambda>g. namespaced (corpus d) ` g) (speaker_groups d))
       (grp_ix @ [np_add (speaker_group_indices d) (length grp)])"

definition allow_list ::
  "string list option \<Rightarrow> string list \<Rightarrow> string list \<Rightarrow> 'x list \<Rightarrow> ndarray
     \<Rightarrow> exn + (string list \<times> string list \<times> 'x list \<times> ndarray)" where
  "allow_list labels all_labels str_labels feats sp_ix =
     (case labels of
        None \<Rightarrow> Inr (sorted_set all_labels, str_labels, feats, sp_ix)
      | Some allowed \<Rightarrow>
          (let dropped = (\<lambda>c. c \<in> set all_labels - set allowed);
               keep_idx = filter (\<lambda>i. \<not> dropped (str_labels ! i)) [0..<length str_labels] in
           case fancy feats keep_idx of
             Inl e \<Rightarrow> Inl e
           | Inr feats' \<Rightarrow>
               (case np_take sp_ix keep_idx of
                  Inl e \<Rightarrow> Inl e
                | Inr sp_ix' \<Rightarrow>
                    Inr (sorted_set allowed, filter (\<lambda>c. \<not> dropped c) str_labels,
                         feats', sp_ix'))))"

definition CombinedDataset_init ::
  "('x, 'm) labelled_dataset_scheme list \<Rightarrow> string list option \<Rightarrow> 'x combined_dataset result" where
  "CombinedDataset_init datasets labels =
     (let sizes = map (\<lambda>d. length (x_matrix d)) datasets;
          corp_ix = np_repeat_arange sizes in
      case np_bincount corp_ix 0 of
        Inl e \<Rightarrow> Raised e
      | Inr corp_counts \<Rightarrow>
     (case py_getitem datasets 0 of
        Inl e \<Rightarrow> Raised e
      | Inr first \<Rightarrow>
     (case combine_speakers datasets [] [] [] [] of
        (spk, sp_ixs, grp, grp_ixs) \<Rightarrow>
     (case np_concatenate sp_ixs of
        Inl e \<Rightarrow> Raised e
      | Inr sp_ix \<Rightarrow>
     (case np_concatenate grp_ixs of
        Inl e \<Rightarrow> Raised e
      | Inr grp_ix \<Rightarrow>
     (case traverse (\<lambda>d. traverse (py_getitem (classes d)) (elems (y_labels d))) datasets of
        Inl e \<Rightarrow> Raised e
      | Inr labelss \<Rightarrow>
     (case allow_list labels (concat (map classes datasets)) (concat labelss)
             (concat (map x_matrix datasets)) sp_ix of
        Inl e \<Rightarrow> Raised e
      | Inr (cls, str_labels, feats, sp_ix') \<Rightarrow>
     (case traverse (py_index cls) str_labels of
        Inl e \<Rightarrow> Raised e
      | Inr ys \<Rightarrow>
          Returned
            \<lparr>corpus = ''combined'',
             names = concat (map (\<lambda>d. map (namespaced (corpus d)) (names d)) datasets),
             features = features first, x_matrix = feats,
             speakers = spk, male_speakers = [], female_speakers = [],
             speaker_groups = grp, speaker_indices = sp_ix', speaker_counts = None,
             speaker_group_indices = sp_ix', male_indices = None, female_indices = None,
             classes = cls, y_labels = np_array ys, class_counts = None,
             corpora = map corpus datasets, corpus_indices = corp_ix,
             corpus_counts = corp_counts\<rparr>))))))))"

text \<open>\<^verbatim>\<open>corpus_to_idx\<close> (lines 496-497) and \<^verbatim>\<open>get_corpus_split\<close> (lines 499-507).\<close>

definition corpus_to_idx :: "('x, 'm) combined_dataset_scheme \<Rightarrow> string \<Rightarrow> exn + nat" where
  "corpus_to_idx c corp = py_index (corpora c) corp"

definition get_corpus_split ::
  "('x, 'm) combined_dataset_scheme \<Rightarrow> string \<Rightarrow> exn + (nat list \<times> nat list)" where
  "get_corpus_split c corp =
     (case corpus_to_idx c corp of
        Inl e \<Rightarrow> Inl e
      | Inr k \<Rightarrow>
          (let cond = map (\<lambda>v. v = k) (elems (corpus_indices c))
           in Inr (nonzero cond, nonzero (map Not cond))))"

section \<open>The scenario of two corpora\<close>

text \<open>
  Corpus \<open>A\<close> has the instances \<open>a1\<close> (speaker \<open>X\<close>, class \<open>happy\<close>) and \<open>a2\<close> (speaker
  \<open>Y\<close>, class \<open>sad\<close>); corpus \<open>B\<close> has \<open>b1\<close> (speaker \<open>Z\<close>, class \<open>happy\<close>). Each instance
  has a feature vector of two numbers. The backends below hand these corpora to the
  constructors, under the suffix \<^verbatim>\<open>.nc\<close>; the records are what the constructors return
  (lemmas \<open>Dataset_init_A\<close>, \<open>LabelledDataset_init_A\<close>, \<open>LabelledDataset_init_B\<close>,
  \<open>CombinedDataset_init_AB\<close> below).
\<close>

definition corpus_backend ::
  "string \<Rightarrow> string list \<Rightarrow> nat list list \<Rightarrow> path \<Rightarrow> exn + nat list backend" where
  "corpus_backend corp nms feats p =
     Inr \<lparr>backend_corpus = corp, backend_names = nms, backend_feature_names = [''f0'', ''f1''],
          backend_features = feats\<rparr>"

definition backends_A :: "nat list backend_classes" where
  "backends_A = \<lparr>NetCDFBackend = corpus_backend ''A'' [''a1'', ''a2''] [[1, 2], [3, 4]],
                 RawAudioBackend = (\<lambda>p. Inl ValueError), ARFFBackend = (\<lambda>p. Inl ValueError)\<rparr>"

definition backends_B :: "nat list backend_classes" where
  "backends_B = \<lparr>NetCDFBackend = corpus_backend ''B'' [''b1''] [[5, 6]],
                 RawAudioBackend = (\<lambda>p. Inl ValueError), ARFFBackend = (\<lambda>p. Inl ValueError)\<rparr>"

definition path_A :: path where
  "path_A = \<lparr>path_text = ''A.nc'', suffix = ''.nc''\<rparr>"

definition path_B :: path where
  "path_B = \<lparr>path_text = ''B.nc'', suffix = ''.nc''\<rparr>"

definition speakers_of_A :: "string \<rightharpoonup> string" where
  "speakers_of_A = [''a1'' \<mapsto> ''X'', ''a2'' \<mapsto> ''Y'']"

definition labels_of_A :: "string \<rightharpoonup> string" where
  "labels_of_A = [''a1'' \<mapsto> ''happy'', ''a2'' \<mapsto> ''sad'']"

definition speakers_of_B :: "string \<rightharpoonup> string" where
  "speakers_of_B = [''b1'' \<mapsto> ''Z'']"

definition labels_of_B :: "string \<rightharpoonup> string" where
  "labels_of_B = [''b1'' \<mapsto> ''happy'']"

definition dataset_A :: "nat list dataset" where
  "dataset_A =
     \<lparr>corpus = ''A'', names = [''a1'', ''a2''], features = [''f0'', ''f1''],
      x_matrix = [[1, 2], [3, 4]], speakers = [''X'', ''Y''],
      male_speakers = [], female_speakers = [], speaker_groups = [{''X''}, {''Y''}],
      speaker_indices = NDArray int64 [0, 1], speaker_counts = Some [1, 1],
      speaker_group_indices = NDArray int64 [0, 1], male_indices = None,
      female_indices = None\<rparr>"

definition labelled_A :: "nat list labelled_dataset" where
  "labelled_A =
     \<lparr>corpus = ''A'', names = [''a1'', ''a2''], features = [''f0'', ''f1''],
      x_matrix = [[1, 2], [3, 4]], speakers = [''X'', ''Y''],
      male_speakers = [], female_speakers = [], speaker_groups = [{''X''}, {''Y''}],
      speaker_indices = NDArray int64 [0, 1], speaker_counts = Some [1, 1],
      speaker_group_indices = NDArray int64 [0, 1], male_indices = None,
      female_indices = None, classes = [''happy'', ''sad''],
      y_labels = NDArray int64 [0, 1], class_counts = Some [1, 1]\<rparr>"

definition labelled_B :: "nat list labelled_dataset" where
  "labelled_B =
     \<lparr>corpus = ''B'', names = [''b1''], features = [''f0'', ''f1''],
      x_matrix = [[5, 6]], speakers = [''Z''],
      male_speakers = [], female_speakers = [], speaker_groups = [{''Z''}],
      speaker_indices = NDArray int64 [0], speaker_counts = Some [1],
      speaker_group_indices = NDArray int64 [0], male_indices = None,
      female_indices = None, classes = [''happy''],
      y_labels = NDArray int64 [0], class_counts = Some [1]\<rparr>"

definition combined_AB :: "nat list combined_dataset" where
  "combined_AB =
     \<lparr>corpus = ''combined'', names = [''A_a1'', ''A_a2'', ''B_b1''],
      features = [''f0'', ''f1''], x_matrix = [[1, 2], [3, 4], [5, 6]],
      speakers = [''A_X'', ''A_Y'', ''B_Z''], male_speakers = [], female_speakers = [],
      speaker_groups = [{''A_X''}, {''A_Y''}, {''B_Z''}],
      speaker_indices = NDArray int64 [0, 1, 2], speaker_counts = None,
      speaker_group_indices = NDArray int64 [0, 1, 2], male_indices = None,
      female_indices = None, classes = [''happy'', ''sad''],
      y_labels = NDArray int64 [0, 1, 0], class_counts = None,
      corpora = [''A'', ''B''], corpus_indices = NDArray int64 [0, 0, 1],
      corpus_counts = [2, 1]\<rparr>"

section \<open>The scenario, evaluated\<close>

lemma Dataset_init_A:
  "Dataset_init backends_A Map.empty path_A (Some speakers_of_A) = Returned dataset_A"
  by code_simp

lemma LabelledDataset_init_A:
  "LabelledDataset_init backends_A Map.empty path_A labels_of_A (Some speakers_of_A)
     = Returned labelled_A"
  by code_simp

lemma LabelledDataset_init_B:
  "LabelledDataset_init backends_B Map.empty path_B labels_of_B (Some speakers_of_B)
     = Returned labelled_B"
  by code_simp

lemma CombinedDataset_init_AB:
  "CombinedDataset_init [labelled_A, labelled_B] None = Returned combined_AB"
  by code_simp

lemma remove_classes_happy:
  "remove_classes {''happy''} combined_AB =
     (Returned (),
      combined_AB\<lparr>names := [''A_a1'', ''B_b1''], x_matrix := [[1, 2], [5, 6]],
        speaker_indices := NDArray int64 [0, 2], speaker_counts := Some [1, 0, 1],
        speaker_group_indices := NDArray int64 [0, 2], classes := [''happy''],
        y_labels := NDArray int64 [0, 0], class_counts := Some [2]\<rparr>)"
  by code_simp

section \<open>Facts about the helpers\<close>

lemma traverse_map:
  "(\<And>a. a \<in> set as \<Longrightarrow> f a = Inr (g a)) \<Longrightarrow> traverse f as = Inr (map g as)"
  by (induction as) auto

lemma filter_nth_upt: "map ((!) xs) (filter (\<lambda>i. P (xs ! i)) [0..<length xs]) = filter P xs"
proof -
  have "filter P xs = filter P (map ((!) xs) [0..<length xs])" by (simp add: map_nth)
  also have "\<dots> = map ((!) xs) (filter (P \<circ> (!) xs) [0..<length xs])" by (rule filter_map)
  finally show ?thesis by (simp add: comp_def)
qed

lemma first_index_member:
  "v \<in> set xs \<Longrightarrow> first_index xs v < length xs \<and> xs ! first_index xs v = v"
  unfolding first_index_def by (induction xs) auto

lemma first_index_nth:
  assumes "distinct xs" and "i < length xs"
  shows "first_index xs (xs ! i) = i"
proof -
  have "takeWhile (\<lambda>u. u \<noteq> xs ! i) xs = take i xs"
  proof (rule takeWhile_eq_take_P_nth)
    fix j assume "j < i" "j < length xs"
    with assms show "xs ! j \<noteq> xs ! i" by (simp add: nth_eq_iff_index_eq)
  next
    show "\<not> xs ! i \<noteq> xs ! i" by simp
  qed
  with assms(2) show ?thesis by (simp add: first_index_def)
qed

lemma first_indices_upt:
  assumes "distinct xs"
  shows "map (first_index xs) xs = [0..<length xs]"
  by (rule nth_equalityI) (simp_all add: first_index_nth [OF assms])

lemma sorted_set_id: "sorted xs \<Longrightarrow> distinct xs \<Longrightarrow> sorted_set xs = xs"
  by (simp add: sorted_set_def sorted_sort_id)

lemma length_sorted_set: "length (sorted_set xs) = card (set xs)"
  by (simp add: sorted_set_def length_remdups_card_conv)

lemma fancy_upt_id: "list_all (\<lambda>v. v < n) vs \<Longrightarrow> fancy [0..<n] vs = Inr vs"
  by (simp add: fancy_def list_all_iff map_idI)

lemma nonzero_filter: "nonzero (map P xs) = filter (\<lambda>i. P (xs ! i)) [0..<length xs]"
  by (auto simp: nonzero_def intro: filter_cong)

lemma nonzero_filter_Not:
  "nonzero (map Not (map P xs)) = filter (\<lambda>i. \<not> P (xs ! i)) [0..<length xs]"
  by (auto simp: nonzero_def intro: filter_cong)

lemma np_bincount_zero:
  assumes "np_bincount a m = Inr counts" and "i < m" and "i \<notin> set (elems a)"
  shows "i < length counts \<and> counts ! i = 0"
proof -
  from assms(1) have c: "counts = map (count_list (elems a)) [0..<max m (bins (elems a))]"
    by (auto simp: np_bincount_def split: if_splits)
  from assms(2) have "i < max m (bins (elems a))" by simp
  with c assms(3) show ?thesis by (simp add: count_list_0_iff)
qed

section \<open>Flattening and restoring a ragged container\<close>

lemma cumsum_from_Nil_iff [simp]: "cumsum_from acc ns = [] \<longleftrightarrow> ns = []"
  by (cases ns) auto

lemma cumsum_from_last:
  "ns \<noteq> [] \<Longrightarrow> last (cumsum_from acc ns) = acc + sum_list ns"
proof (induction ns arbitrary: acc)
  case Nil
  then show ?case by simp
next
  case (Cons n ns)
  show ?case
  proof (cases ns)
    case Nil
    then show ?thesis by simp
  next
    case (Cons m ms)
    then have "last (cumsum_from (acc + n) ns) = acc + n + sum_list ns"
      using Cons.IH [of "acc + n"] by simp
    with Cons show ?thesis by simp
  qed
qed

lemma slices_at_offsets:
  "map (\<lambda>(st, en). py_slice (pre @ concat xss) st en)
     (zip (length pre # cumsum_from (length pre) (map length xss))
          (cumsum_from (length pre) (map length xss))) = xss"
proof (induction xss arbitrary: pre)
  case Nil
  show ?case by simp
next
  case (Cons xs xss)
  have "map (\<lambda>(st, en). py_slice ((pre @ xs) @ concat xss) st en)
     (zip (length (pre @ xs) # cumsum_from (length (pre @ xs)) (map length xss))
          (cumsum_from (length (pre @ xs)) (map length xss))) = xss"
    by (rule Cons.IH)
  then show ?case by (simp add: py_slice_def)
qed

lemma np_split_butlast_cumsum:
  assumes "xss \<noteq> []"
  shows "np_split \<lparr>ncols = d, rows = concat xss\<rparr> (butlast (cumsum (map length xss)))
         = map (\<lambda>rs. \<lparr>ncols = d, rows = rs\<rparr>) xss"
proof -
  let ?cs = "cumsum_from 0 (map length xss)"
  have ne: "?cs \<noteq> []" using assms by simp
  have "last ?cs = length (concat xss)"
    using assms cumsum_from_last [of "map length xss" 0] by (simp add: length_concat)
  then have cs: "butlast ?cs @ [length (concat xss)] = ?cs"
    using ne append_butlast_last_id [of ?cs] by simp
  have sl: "map (\<lambda>(st, en). py_slice (concat xss) st en) (zip (0 # ?cs) ?cs) = xss"
    using slices_at_offsets [of "[]" xss] by simp
  have "np_split \<lparr>ncols = d, rows = concat xss\<rparr> (butlast (cumsum (map length xss)))
      = map (\<lambda>(st, en). \<lparr>ncols = d, rows = py_slice (concat xss) st en\<rparr>) (zip (0 # ?cs) ?cs)"
    using cs by (simp add: np_split_def cumsum_def)
  also have "\<dots> = map (\<lambda>rs. \<lparr>ncols = d, rows = rs\<rparr>)
       (map (\<lambda>(st, en). py_slice (concat xss) st en) (zip (0 # ?cs) ?cs))"
    by (simp add: case_prod_unfold comp_def)
  finally show ?thesis using sl by simp
qed

text \<open>
  Claim C4. For every non-empty list of 2-D arrays with a common feature dimension,
  \<^verbatim>\<open>_make_flat\<close> returns a flat array and the per-instance lengths, and
  \<^verbatim>\<open>_make_ragged\<close> on these two reproduces the list exactly: every instance gets back
  its own rows, element for element, and its feature dimension.
\<close>

theorem make_ragged_make_flat:
  assumes "a \<noteq> []" and "list_all (\<lambda>y. ncols y = ncols (hd a)) a"
  shows "\<exists>flat slices. make_flat a = Inr (flat, slices) \<and> make_ragged flat slices = a"
proof -
  obtain x xs where a: "a = x # xs" using assms(1) by (cases a) auto
  have same: "list_all (\<lambda>y. ncols y = ncols x) xs" using assms(2) a by simp
  let ?flat = "\<lparr>ncols = ncols x, rows = concat (map rows a)\<rparr>"
  let ?slices = "map (\<lambda>x. length (rows x)) a"
  have mf: "make_flat a = Inr (?flat, ?slices)"
    using same a by (simp add: make_flat_def np_concatenate2_def)
  have "make_ragged ?flat ?slices = map (\<lambda>rs. \<lparr>ncols = ncols x, rows = rs\<rparr>) (map rows a)"
    using np_split_butlast_cumsum [of "map rows a" "ncols x"] assms(1)
    by (simp add: make_ragged_def comp_def)
  also have "\<dots> = a"
    using assms(2) a by (simp add: list_all_iff map_idI)
  finally show ?thesis using mf by blast
qed

theorem make_ragged_make_flat_witness:
  "(\<exists>flat slices.
      make_flat [\<lparr>ncols = 2, rows = [[1, 2]]\<rparr>, \<lparr>ncols = 2, rows = []\<rparr>,
                 \<lparr>ncols = 2, rows = [[3, 4], [5, 6::nat]]\<rparr>] = Inr (flat, slices)
      \<and> make_ragged flat slices =
          [\<lparr>ncols = 2, rows = [[1, 2]]\<rparr>, \<lparr>ncols = 2, rows = []\<rparr>,
           \<lparr>ncols = 2, rows = [[3, 4], [5, 6::nat]]\<rparr>])"
  using make_ragged_make_flat
    [of "[\<lparr>ncols = 2, rows = [[1, 2]]\<rparr>, \<lparr>ncols = 2, rows = []\<rparr>,
          \<lparr>ncols = 2, rows = [[3, 4], [5, 6::nat]]\<rparr>]"]
  by simp

section \<open>Removing instances\<close>

subsection \<open>What the method leaves alone\<close>

lemma names_reset_male_female [simp]: "names (snd (reset_male_female_indices d)) = names d"
  by (simp add: reset_male_female_indices_def split: sum.splits)

lemma names_reset_speaker_group [simp]: "names (snd (reset_speaker_group_indices d)) = names d"
  by (simp add: reset_speaker_group_indices_def split: sum.splits option.splits)

lemma names_slice_indices [simp]: "names (snd (slice_indices idx kept d)) = names d"
  by (simp add: slice_indices_def Let_def split: sum.splits option.splits)

lemma names_compact_speakers [simp]:
  "names (snd (compact_speakers idx kept new_sp d)) = names d"
proof -
  have tail: "names (snd (case r of
        (Returned u, d2) \<Rightarrow>
          if male_speakers d2 \<noteq> [] \<and> female_speakers d2 \<noteq> [] then
            reset_male_female_indices
              (d2\<lparr>male_speakers := filter (\<lambda>s. s \<in> set (speakers d2)) (male_speakers d2),
                  female_speakers := filter (\<lambda>s. s \<in> set (speakers d2)) (female_speakers d2)\<rparr>)
          else (Returned (), d2)
      | r \<Rightarrow> r)) = names (snd r)" for r :: "unit result \<times> ('a, 'b) dataset_scheme"
    by (cases r; cases "fst r") auto
  show ?thesis
    unfolding compact_speakers_def Let_def
    by (simp add: tail split: sum.splits)
qed

lemma counts_reset_male_female [simp]:
  "speaker_counts (snd (reset_male_female_indices d)) = speaker_counts d"
  by (simp add: reset_male_female_indices_def split: sum.splits)

lemma counts_reset_speaker_group [simp]:
  "speaker_counts (snd (reset_speaker_group_indices d)) = speaker_counts d"
  by (simp add: reset_speaker_group_indices_def split: sum.splits option.splits)

lemma counts_slice_indices [simp]:
  "speaker_counts (snd (slice_indices idx kept d)) = speaker_counts d"
  by (simp add: slice_indices_def Let_def split: sum.splits option.splits)

lemma counts_compact_speakers [simp]:
  "speaker_counts (snd (compact_speakers idx kept new_sp d)) = speaker_counts d"
proof -
  have tail: "speaker_counts (snd (case r of
        (Returned u, d2) \<Rightarrow>
          if male_speakers d2 \<noteq> [] \<and> female_speakers d2 \<noteq> [] then
            reset_male_female_indices
              (d2\<lparr>male_speakers := filter (\<lambda>s. s \<in> set (speakers d2)) (male_speakers d2),
                  female_speakers := filter (\<lambda>s. s \<in> set (speakers d2)) (female_speakers d2)\<rparr>)
          else (Returned (), d2)
      | r \<Rightarrow> r)) = speaker_counts (snd r)" for r :: "unit result \<times> ('a, 'b) dataset_scheme"
    by (cases r; cases "fst r") auto
  show ?thesis
    unfolding compact_speakers_def Let_def
    by (simp add: tail split: sum.splits)
qed

text \<open>
  Whatever it is given and however it ends, \<^verbatim>\<open>Dataset.remove_instances\<close> leaves the
  speaker counts as they were.
\<close>

lemma remove_instances_speaker_counts:
  "speaker_counts (snd (remove_instances keep d)) = speaker_counts d"
  by (simp add: remove_instances_def Let_def split: sum.splits)

text \<open>
  Claim C1, which the code does not meet. On the dataset of corpus \<open>A\<close>, one instance per
  speaker, \<^verbatim>\<open>remove_instances({"a1"})\<close> returns with one instance and one speaker left,
  and the speaker counts are still \<open>[1, 1]\<close>: their sum is 2 and not the number of
  instances, and there are more counts than speakers.
\<close>

theorem remove_instances_stale_speaker_counts:
  "Dataset_init backends_A Map.empty path_A (Some speakers_of_A) = Returned dataset_A \<and>
   remove_instances {''a1''} dataset_A =
     (Returned (),
      dataset_A\<lparr>names := [''a1''], x_matrix := [[1, 2]], speakers := [''X''],
        speaker_groups := [{''X''}], speaker_indices := NDArray int64 [0],
        speaker_group_indices := NDArray int64 [0]\<rparr>) \<and>
   n_instances (snd (remove_instances {''a1''} dataset_A)) = 1 \<and>
   speaker_counts (snd (remove_instances {''a1''} dataset_A)) = Some [1, 1]"
  by code_simp

text \<open>
  Claim C5. After \<^verbatim>\<open>remove_instances(keep)\<close> the names are the names from before that
  are in \<open>keep\<close>, in their order from before. Line 111 assigns them before anything can
  raise, so this holds of the object also when the call ends in an exception.
\<close>

theorem remove_instances_names:
  "names (snd (remove_instances keep d)) = filter (\<lambda>n. n \<in> keep) (names d)"
proof -
  let ?idx = "kept_idx keep d"
  have kept: "map ((!) (names d)) ?idx = filter (\<lambda>n. n \<in> keep) (names d)"
    unfolding kept_idx_def by (rule filter_nth_upt)
  have "names (snd (remove_instances keep d)) = map ((!) (names d)) ?idx"
    by (simp add: remove_instances_def Let_def split: sum.splits)
  with kept show ?thesis by simp
qed

theorem remove_instances_names_witness:
  "names (snd (remove_instances {''a2'', ''zz''} dataset_A)) = [''a2'']"
  using remove_instances_names [of "{''a2'', ''zz''}" dataset_A]
  by (simp add: dataset_A_def)

subsection \<open>The branch without compaction\<close>

lemma slice_indices_raises: "\<exists>e. fst (slice_indices idx kept d) = Raised e"
  by (simp add: slice_indices_def Let_def split: sum.splits option.splits)

lemma slice_indices_AttributeError:
  assumes "male_indices d = None"
    and "list_all (\<lambda>i. i < length (elems (speaker_group_indices d))) idx"
  shows "fst (slice_indices idx kept d) = Raised AttributeError"
  using assms by (simp add: slice_indices_def Let_def np_take_def fancy_def)

lemma remove_instances_slice_raises:
  assumes "length (speakers d)
           \<le> card (set (map ((!) (elems (speaker_indices d))) (kept_idx keep d)))"
  shows "\<exists>e. fst (remove_instances keep d) = Raised e"
proof (cases "fancy (x_matrix d) (kept_idx keep d)")
  case (Inl e)
  then show ?thesis by (simp add: remove_instances_def Let_def)
next
  case feats: (Inr feats)
  show ?thesis
  proof (cases "np_take (speaker_indices d) (kept_idx keep d)")
    case (Inl e)
    with feats show ?thesis by (simp add: remove_instances_def Let_def)
  next
    case (Inr kept)
    then have "elems kept = map ((!) (elems (speaker_indices d))) (kept_idx keep d)"
      by (auto simp: np_take_def fancy_def split: if_splits)
    with assms have "\<not> length (elems (np_unique kept)) < length (speakers d)"
      by (simp add: np_unique_def length_sorted_set)
    with feats Inr show ?thesis
      using slice_indices_raises by (simp add: remove_instances_def Let_def)
  qed
qed

text \<open>
  Claim C9. When the male and female speaker lists are not both configured and the kept
  instances still have as many distinct speakers as the speaker list is long,
  \<^verbatim>\<open>remove_instances\<close> ends in an exception. (The hypothesis on the speaker lists is the
  claim's; the branch raises with them configured too, then by indexing a tuple with a list.)
\<close>

theorem remove_instances_without_compaction_raises:
  assumes "male_speakers d = [] \<or> female_speakers d = []"
    and "length (speakers d)
           \<le> card (set (map ((!) (elems (speaker_indices d))) (kept_idx keep d)))"
  shows "\<exists>e. fst (remove_instances keep d) = Raised e"
  using assms(2) by (rule remove_instances_slice_raises)

theorem remove_instances_without_compaction_raises_witness:
  "(male_speakers dataset_A = [] \<or> female_speakers dataset_A = []) \<and>
   length (speakers dataset_A)
     \<le> card (set (map ((!) (elems (speaker_indices dataset_A)))
                (kept_idx {''a1'', ''a2''} dataset_A))) \<and>
   (\<exists>e. fst (remove_instances {''a1'', ''a2''} dataset_A) = Raised e)"
proof -
  have h1: "male_speakers dataset_A = [] \<or> female_speakers dataset_A = []"
    by (simp add: dataset_A_def)
  have h2: "length (speakers dataset_A)
     \<le> card (set (map ((!) (elems (speaker_indices dataset_A)))
                (kept_idx {''a1'', ''a2''} dataset_A)))"
    by code_simp
  show ?thesis
    using h1 h2 remove_instances_without_compaction_raises [OF h1 h2] by blast
qed

text \<open>
  The exception is \<^verbatim>\<open>AttributeError\<close> when \<^verbatim>\<open>_male_indices\<close> was never set and the feature
  container and the two index arrays are as long as the name list.
\<close>

lemma kept_idx_in_range: "list_all (\<lambda>i. i < length (names d)) (kept_idx keep d)"
  by (simp add: kept_idx_def list_all_iff)

lemma remove_instances_without_compaction_AttributeError:
  assumes unset: "male_indices d = None"
    and span: "length (speakers d)
           \<le> card (set (map ((!) (elems (speaker_indices d))) (kept_idx keep d)))"
    and lens: "length (names d) \<le> length (x_matrix d)"
      "length (names d) \<le> length (elems (speaker_indices d))"
      "length (names d) \<le> length (elems (speaker_group_indices d))"
  shows "fst (remove_instances keep d) = Raised AttributeError"
proof -
  let ?idx = "kept_idx keep d"
  have r: "list_all (\<lambda>i. i < length (names d)) ?idx" by (rule kept_idx_in_range)
  have feats: "fancy (x_matrix d) ?idx = Inr (map ((!) (x_matrix d)) ?idx)"
    using r lens(1) by (auto simp: fancy_def list_all_iff)
  let ?kept = "NDArray (dtype (speaker_indices d)) (map ((!) (elems (speaker_indices d))) ?idx)"
  have kept: "np_take (speaker_indices d) ?idx = Inr ?kept"
    using r lens(2) by (auto simp: np_take_def fancy_def list_all_iff)
  have no: "\<not> length (elems (np_unique ?kept)) < length (speakers d)"
    using span by (simp add: np_unique_def length_sorted_set)
  have grp: "list_all (\<lambda>i. i < length (elems (speaker_group_indices d))) ?idx"
    using r lens(3) by (auto simp: list_all_iff)
  let ?d2 = "d\<lparr>names := map ((!) (names d)) ?idx, x_matrix := map ((!) (x_matrix d)) ?idx\<rparr>"
  have "fst (slice_indices ?idx ?kept ?d2) = Raised AttributeError"
    by (rule slice_indices_AttributeError) (simp_all add: unset grp)
  then show ?thesis
    by (simp add: remove_instances_def Let_def feats kept no)
qed

text \<open>
  A dataset fresh from the constructor has \<^verbatim>\<open>_male_indices\<close> and \<^verbatim>\<open>_female_indices\<close>
  unset exactly when its male and female speaker lists are not both configured.
\<close>

lemma reset_male_female_unconfigured:
  "male_speakers d = [] \<or> female_speakers d = []
     \<Longrightarrow> reset_male_female_indices d = (Returned (), d)"
  by (auto simp: reset_male_female_indices_def)

lemma reset_male_female_speakers:
  "reset_male_female_indices d = (r, d') \<Longrightarrow>
     male_speakers d' = male_speakers d \<and> female_speakers d' = female_speakers d"
  by (auto simp: reset_male_female_indices_def split: if_splits sum.splits)

lemma reset_speaker_group_male:
  "reset_speaker_group_indices d = (r, d') \<Longrightarrow>
     male_speakers d' = male_speakers d \<and> female_speakers d' = female_speakers d \<and>
     male_indices d' = male_indices d \<and> female_indices d' = female_indices d"
  by (auto simp: reset_speaker_group_indices_def split: if_splits sum.splits option.splits)

lemma Dataset_init_tail:
  assumes r1: "reset_male_female_indices d0 = (Returned u1, d1)"
    and r2: "reset_speaker_group_indices d1' = (Returned u2, d)"
    and d0: "male_indices d0 = None" "female_indices d0 = None"
    and d1': "d1' = d1 \<or> d1' = d1\<lparr>speaker_groups := gs\<rparr>"
    and un: "male_speakers d = [] \<or> female_speakers d = []"
  shows "male_indices d = None \<and> female_indices d = None"
proof -
  from reset_speaker_group_male [OF r2] d1'
  have m: "male_speakers d = male_speakers d1" "female_speakers d = female_speakers d1"
    "male_indices d = male_indices d1" "female_indices d = female_indices d1"
    by auto
  from reset_male_female_speakers [OF r1] m un
  have "male_speakers d0 = [] \<or> female_speakers d0 = []" by auto
  from reset_male_female_unconfigured [OF this] r1 have "d1 = d0" by simp
  with m d0 show ?thesis by simp
qed

lemma Dataset_init_male_indices:
  assumes "Dataset_init B registry p speaker_path = Returned d"
    and "male_speakers d = [] \<or> female_speakers d = []"
  shows "male_indices d = None \<and> female_indices d = None"
proof -
  from assms(1) obtain d0 d1 gs u1 u2 where
    "reset_male_female_indices d0 = (Returned u1, d1)"
    "male_indices d0 = None" "female_indices d0 = None"
    "reset_speaker_group_indices d1 = (Returned u2, d)
       \<or> reset_speaker_group_indices (d1\<lparr>speaker_groups := gs\<rparr>) = (Returned u2, d)"
    unfolding Dataset_init_def
    by (fastforce split: option.splits sum.splits prod.splits result.splits if_splits)
  then show ?thesis using Dataset_init_tail assms(2) by (metis (no_types, lifting))
qed

subsection \<open>The method of LabelledDataset\<close>

text \<open>
  \<^verbatim>\<open>LabelledDataset.remove_instances\<close> ends with the method of the base class, so when it
  returns the names are the filtered ones, and it ends in an exception under the
  condition of the base method.
\<close>

lemma kept_idx_more [simp]:
  "kept_idx keep (d\<lparr>y_labels := ys\<rparr>) = kept_idx keep d"
  "kept_idx keep (d\<lparr>classes := cs\<rparr>) = kept_idx keep d"
  "kept_idx keep (d\<lparr>class_counts := cc\<rparr>) = kept_idx keep d"
  by (simp_all add: kept_idx_def)

lemma recount_classes_names:
  "fst (recount_classes keep d) = Returned ()
     \<Longrightarrow> names (snd (recount_classes keep d)) = filter (\<lambda>n. n \<in> keep) (names d)"
  using filter_nth_upt [of "names d" "\<lambda>n. n \<in> keep"]
  by (auto simp: recount_classes_def remove_instances_def Let_def kept_idx_def
      split: sum.splits)

lemma remove_instances_labelled_names:
  "fst (remove_instances_labelled keep d) = Returned ()
     \<Longrightarrow> names (snd (remove_instances_labelled keep d)) = filter (\<lambda>n. n \<in> keep) (names d)"
proof -
  assume ret: "fst (remove_instances_labelled keep d) = Returned ()"
  have a: "names (snd (recount_classes keep (d\<lparr>y_labels := ys\<rparr>)))
             = filter (\<lambda>n. n \<in> keep) (names d)"
    if "fst (recount_classes keep (d\<lparr>y_labels := ys\<rparr>)) = Returned ()" for ys
    using recount_classes_names [OF that] by simp
  have b: "names (snd (recount_classes keep (d\<lparr>y_labels := ys, classes := cs\<rparr>)))
             = filter (\<lambda>n. n \<in> keep) (names d)"
    if "fst (recount_classes keep (d\<lparr>y_labels := ys, classes := cs\<rparr>)) = Returned ()"
    for ys cs
    using recount_classes_names [OF that] by simp
  show ?thesis
    using ret a b
    by (auto simp: remove_instances_labelled_def Let_def split: sum.splits if_splits)
qed

lemma recount_classes_raises:
  assumes "length (speakers d)
           \<le> card (set (map ((!) (elems (speaker_indices d))) (kept_idx keep d)))"
  shows "\<exists>e. fst (recount_classes keep d) = Raised e"
proof (cases "np_bincount (y_labels d) 0")
  case (Inl e)
  then show ?thesis by (simp add: recount_classes_def)
next
  case (Inr counts)
  then show ?thesis
    using remove_instances_slice_raises [of "d\<lparr>class_counts := Some counts\<rparr>" keep] assms
    by (simp add: recount_classes_def)
qed

lemma remove_instances_labelled_raises:
  assumes "length (speakers d)
           \<le> card (set (map ((!) (elems (speaker_indices d))) (kept_idx keep d)))"
  shows "\<exists>e. fst (remove_instances_labelled keep d) = Raised e"
proof -
  have a: "\<exists>e. fst (recount_classes keep (d\<lparr>y_labels := ys\<rparr>)) = Raised e" for ys
    using assms by (intro recount_classes_raises) simp
  have b: "\<exists>e. fst (recount_classes keep (d\<lparr>y_labels := ys, classes := cs\<rparr>)) = Raised e"
    for ys cs
    using assms by (intro recount_classes_raises) simp
  show ?thesis
    using a b by (auto simp: remove_instances_labelled_def Let_def split: sum.splits)
qed

section \<open>An unknown suffix\<close>

text \<open>
  Claim C6, as the code has it. Constructing a \<^verbatim>\<open>Dataset\<close> or a \<^verbatim>\<open>LabelledDataset\<close> from
  a path whose suffix is not a key of \<^verbatim>\<open>_BACKENDS\<close> raises the built-in
  \<^verbatim>\<open>NotImplementedError\<close>, whatever the other arguments are.
\<close>

theorem unknown_suffix_NotImplementedError:
  assumes "suffix p \<notin> dom (BACKENDS B)"
  shows "Dataset_init B registry p speaker_path = Raised NotImplementedError \<and>
         LabelledDataset_init B registry p label_dict speaker_path = Raised NotImplementedError"
  using assms by (auto simp: Dataset_init_def LabelledDataset_init_def split: option.splits)

theorem unknown_suffix_NotImplementedError_witness:
  "''.csv'' \<notin> dom (BACKENDS backends_A) \<and>
   Dataset_init backends_A Map.empty \<lparr>path_text = ''A.csv'', suffix = ''.csv''\<rparr> None
     = Raised NotImplementedError \<and>
   LabelledDataset_init backends_A Map.empty \<lparr>path_text = ''A.csv'', suffix = ''.csv''\<rparr>
     Map.empty None = Raised NotImplementedError"
proof -
  have h: "suffix \<lparr>path_text = ''A.csv'', suffix = ''.csv''\<rparr> \<notin> dom (BACKENDS backends_A)"
    by (simp add: BACKENDS_def dom_def)
  show ?thesis
    using h unknown_suffix_NotImplementedError [OF h, of Map.empty None Map.empty] by simp
qed

text \<open>
  The claim as it was stated names another exception: on the suffix \<^verbatim>\<open>.csv\<close> the
  constructor raises an exception whose class is not called \<^verbatim>\<open>UnsupportedFormatError\<close>.
\<close>

theorem unknown_suffix_counterexample:
  "\<exists>e. Dataset_init backends_A Map.empty \<lparr>path_text = ''A.csv'', suffix = ''.csv''\<rparr> None
         = Raised e
       \<and> exn_name e \<noteq> ''UnsupportedFormatError''"
  by (simp add: Dataset_init_def BACKENDS_def)

section \<open>Classes\<close>

lemma traverse_list_all2:
  "traverse f as = Inr bs \<Longrightarrow> list_all2 (\<lambda>a b. f a = Inr b) as bs"
  by (induction as arbitrary: bs) (auto split: sum.splits)

lemma traverse_py_index_bound:
  assumes "traverse (py_index cls) labels = Inr ys"
  shows "list_all (\<lambda>v. v < length cls) ys"
proof -
  have "v < length cls" if "v \<in> set ys" for v
  proof -
    from traverse_list_all2 [OF assms] that obtain l where "py_index cls l = Inr v"
      by (auto simp: list_all2_conv_all_nth in_set_conv_nth)
    then show ?thesis
      using first_index_member [of l cls] by (auto simp: py_index_def split: if_splits)
  qed
  then show ?thesis by (simp add: list_all_iff)
qed

lemma np_bincount_int64: "np_bincount a m = Inr counts \<Longrightarrow> dtype a = int64"
  by (cases "dtype a") (auto simp: np_bincount_def)

text \<open>
  A dataset that the constructor of \<^verbatim>\<open>LabelledDataset\<close> returns has at least one class,
  its class list is sorted without repetition, its labels are integer positions in the
  class list, and its class counts are the \<^verbatim>\<open>np.bincount\<close> of its labels.
\<close>

lemma LabelledDataset_init_class_invariant:
  assumes "LabelledDataset_init B registry p label_dict speaker_path = Returned d"
  shows "class_invariant d \<and> classes d \<noteq> [] \<and>
         (\<exists>counts. class_counts d = Some counts \<and> np_bincount (y_labels d) 0 = Inr counts)"
proof -
  from assms obtain labels ys counts where
    ys: "traverse (py_index (sorted_set labels)) labels = Inr ys"
    and counts: "np_bincount (np_array ys) 0 = Inr counts"
    and d: "classes d = sorted_set labels" "y_labels d = np_array ys"
      "class_counts d = Some counts"
    unfolding LabelledDataset_init_def Let_def
    by (auto split: result.splits sum.splits)
  have int: "dtype (np_array ys) = int64" using counts by (rule np_bincount_int64)
  then have ne: "ys \<noteq> []" by (auto simp: np_array_def split: if_splits)
  have bound: "list_all (\<lambda>v. v < length (sorted_set labels)) ys"
    using ys by (rule traverse_py_index_bound)
  with ne have "sorted_set labels \<noteq> []" by (cases ys) auto
  moreover have "sorted (sorted_set labels)" "distinct (sorted_set labels)"
    by (simp_all add: sorted_set_def)
  moreover have "elems (np_array ys) = ys" by (simp add: np_array_def)
  ultimately show ?thesis
    using d int bound counts by (simp add: class_invariant_def)
qed

lemma class_invariant_combined_AB: "class_invariant combined_AB"
  by code_simp

text \<open>
  What \<^verbatim>\<open>map_classes\<close> does with an identity mapping. On a labelled dataset with at least
  one class whose class list is sorted without repetition and whose labels are integer
  positions in it, \<^verbatim>\<open>map_classes\<close> with a mapping that sends every class to itself, or
  has no entry for it, returns, leaves the class list and the label array as they were,
  and sets the class counts to the \<^verbatim>\<open>np.bincount\<close> of the labels: when they were that
  before, as in every dataset from the constructor of \<^verbatim>\<open>LabelledDataset\<close>, the whole
  object is as it was. A second application gives what the first gave.
\<close>

theorem map_classes_identity:
  assumes inv: "class_invariant d" and ne: "classes d \<noteq> []"
    and ident: "\<forall>c \<in> set (classes d). m c = None \<or> m c = Some c"
  shows "\<exists>counts. np_bincount (y_labels d) 0 = Inr counts \<and>
           map_classes m d = (Returned (), d\<lparr>class_counts := Some counts\<rparr>) \<and>
           (class_counts d = Some counts \<longrightarrow> map_classes m d = (Returned (), d)) \<and>
           map_classes m (snd (map_classes m d)) = map_classes m d"
proof -
  have step: "map_classes m d' = (Returned (), d'\<lparr>class_counts := Some counts\<rparr>)"
    if inv: "class_invariant d'" and ne: "classes d' \<noteq> []"
      and ident: "\<forall>c \<in> set (classes d'). m c = None \<or> m c = Some c"
      and counts: "np_bincount (y_labels d') 0 = Inr counts"
    for d' :: "('a, 'b) labelled_dataset_scheme" and counts
  proof -
    let ?cls = "classes d'"
    from ident have same: "map (map_get m) ?cls = ?cls"
      by (intro map_idI) (auto simp: map_get_def split: option.splits)
    from inv have sd: "sorted ?cls" "distinct ?cls" by (simp_all add: class_invariant_def)
    then have new: "sorted_set (map (map_get m) ?cls) = ?cls"
      using same by (simp add: sorted_set_id)
    have "traverse (\<lambda>k. py_index ?cls (map_get m k)) ?cls = Inr (map (first_index ?cls) ?cls)"
    proof (rule traverse_map)
      fix k assume k: "k \<in> set ?cls"
      with ident have "map_get m k = k" by (auto simp: map_get_def split: option.splits)
      with k show "py_index ?cls (map_get m k) = Inr (first_index ?cls k)"
        by (simp add: py_index_def)
    qed
    then have ixs: "traverse (\<lambda>k. py_index ?cls (map_get m k)) ?cls = Inr [0..<length ?cls]"
      using first_indices_upt [OF sd(2)] by simp
    from ne have arr: "np_array [0..<length ?cls] = NDArray int64 [0..<length ?cls]"
      by (simp add: np_array_def)
    from inv have y: "dtype (y_labels d') = int64"
      "list_all (\<lambda>v. v < length ?cls) (elems (y_labels d'))"
      by (simp_all add: class_invariant_def)
    then have idx: "np_index (np_array [0..<length ?cls]) (y_labels d') = Inr (y_labels d')"
      using fancy_upt_id [of "length ?cls" "elems (y_labels d')"]
      by (cases "y_labels d'") (simp add: arr np_index_def np_take_def)
    show ?thesis
      by (simp add: map_classes_def Let_def new ixs idx counts)
  qed
  from inv obtain counts where counts: "np_bincount (y_labels d) 0 = Inr counts"
    by (auto simp: class_invariant_def np_bincount_def)
  have one: "map_classes m d = (Returned (), d\<lparr>class_counts := Some counts\<rparr>)"
    using inv ne ident counts by (rule step)
  have "map_classes m (d\<lparr>class_counts := Some counts\<rparr>)
          = (Returned (), d\<lparr>class_counts := Some counts\<rparr>\<lparr>class_counts := Some counts\<rparr>)"
    by (rule step) (use inv ne ident counts in \<open>simp_all add: class_invariant_def\<close>)
  then have two: "map_classes m (snd (map_classes m d)) = map_classes m d"
    using one by simp
  have "map_classes m d = (Returned (), d)" if "class_counts d = Some counts"
    using one that by simp
  with counts one two show ?thesis by blast
qed

theorem map_classes_identity_witness:
  "class_invariant labelled_A \<and> classes labelled_A \<noteq> [] \<and>
   map_classes [''sad'' \<mapsto> ''sad'', ''angry'' \<mapsto> ''calm''] labelled_A = (Returned (), labelled_A) \<and>
   map_classes [''sad'' \<mapsto> ''sad'', ''angry'' \<mapsto> ''calm'']
     (snd (map_classes [''sad'' \<mapsto> ''sad'', ''angry'' \<mapsto> ''calm''] labelled_A))
     = map_classes [''sad'' \<mapsto> ''sad'', ''angry'' \<mapsto> ''calm''] labelled_A"
proof -
  let ?m = "[''sad'' \<mapsto> ''sad'', ''angry'' \<mapsto> ''calm'']"
  have h1: "class_invariant labelled_A" by code_simp
  have h2: "classes labelled_A \<noteq> []" by (simp add: labelled_A_def)
  have h3: "\<forall>c \<in> set (classes labelled_A). ?m c = None \<or> ?m c = Some c"
    by (simp add: labelled_A_def)
  have c: "class_counts labelled_A = Some [1, 1]" by (simp add: labelled_A_def)
  have b: "np_bincount (y_labels labelled_A) 0 = Inr [1, 1]" by code_simp
  from map_classes_identity [OF h1 h2 h3] obtain counts where
    k: "np_bincount (y_labels labelled_A) 0 = Inr counts"
      "class_counts labelled_A = Some counts \<longrightarrow> map_classes ?m labelled_A = (Returned (), labelled_A)"
      "map_classes ?m (snd (map_classes ?m labelled_A)) = map_classes ?m labelled_A"
    by blast
  from k(1) b have "counts = [1, 1]" by simp
  with k c
  have "map_classes ?m labelled_A = (Returned (), labelled_A) \<and>
        map_classes ?m (snd (map_classes ?m labelled_A)) = map_classes ?m labelled_A"
    by blast
  with h1 h2 show ?thesis by blast
qed

text \<open>
  Claim C7, which the code does not meet on a combined dataset. The constructor of
  \<^verbatim>\<open>CombinedDataset\<close> never assigns \<^verbatim>\<open>_class_counts\<close>, which the constructor of
  \<^verbatim>\<open>LabelledDataset\<close> assigns in line 327 and \<^verbatim>\<open>__str__\<close> reads in line 424. On the
  combination of \<open>A\<close> and \<open>B\<close> the class counts are unset, and \<^verbatim>\<open>map_classes\<close> with the
  mapping of \<open>happy\<close> to \<open>happy\<close> and \<open>sad\<close> to \<open>sad\<close> returns with the class list and the
  labels as they were and the class counts \<open>[2, 1]\<close>: they are not as they were.
\<close>

theorem map_classes_identity_unset_class_counts:
  "CombinedDataset_init [labelled_A, labelled_B] None = Returned combined_AB \<and>
   class_counts combined_AB = None \<and>
   map_classes [''happy'' \<mapsto> ''happy'', ''sad'' \<mapsto> ''sad''] combined_AB
     = (Returned (), combined_AB\<lparr>class_counts := Some [2, 1]\<rparr>) \<and>
   classes (snd (map_classes [''happy'' \<mapsto> ''happy'', ''sad'' \<mapsto> ''sad''] combined_AB))
     = classes combined_AB \<and>
   y_labels (snd (map_classes [''happy'' \<mapsto> ''happy'', ''sad'' \<mapsto> ''sad''] combined_AB))
     = y_labels combined_AB \<and>
   class_counts (snd (map_classes [''happy'' \<mapsto> ''happy'', ''sad'' \<mapsto> ''sad''] combined_AB))
     = Some [2, 1]"
  by code_simp

text \<open>
  Claim C10. \<^verbatim>\<open>remove_classes\<close> never changes the speaker list or the list of speaker
  groups, however it ends. When it returns, the speaker group indices are the speaker
  indices, and the speaker counts are the \<^verbatim>\<open>np.bincount\<close> of the remaining speaker indices
  over the whole speaker list: a speaker with no instance left is still listed, with the
  count 0.
\<close>

theorem remove_classes_frame:
  "(case remove_classes keep d of
      (r, d') \<Rightarrow>
        speakers d' = speakers d \<and> speaker_groups d' = speaker_groups d \<and>
        (r = Returned () \<longrightarrow>
           speaker_group_indices d' = speaker_indices d' \<and>
           (\<exists>counts. speaker_counts d' = Some counts \<and>
              np_bincount (speaker_indices d') (length (speakers d)) = Inr counts \<and>
              length (speakers d') \<le> length counts \<and>
              (\<forall>i < length (speakers d').
                 i \<notin> set (elems (speaker_indices d')) \<longrightarrow> counts ! i = 0))))"
proof -
  have frame: "speakers (snd (remove_classes keep d)) = speakers d \<and>
     speaker_groups (snd (remove_classes keep d)) = speaker_groups d \<and>
     (fst (remove_classes keep d) = Returned () \<longrightarrow>
        speaker_group_indices (snd (remove_classes keep d))
          = speaker_indices (snd (remove_classes keep d)) \<and>
        (\<exists>counts. speaker_counts (snd (remove_classes keep d)) = Some counts \<and>
           np_bincount (speaker_indices (snd (remove_classes keep d))) (length (speakers d))
             = Inr counts))"
    by (simp add: remove_classes_def Let_def split: sum.splits)
  obtain r d' where rd: "remove_classes keep d = (r, d')" by (cases "remove_classes keep d")
  show ?thesis
  proof (cases "r = Returned ()")
    case False
    with frame rd show ?thesis by simp
  next
    case True
    with frame rd obtain counts where
      c: "speaker_counts d' = Some counts"
         "np_bincount (speaker_indices d') (length (speakers d)) = Inr counts"
      by auto
    have zero: "i < length counts \<and> counts ! i = 0"
      if "i < length (speakers d)" "i \<notin> set (elems (speaker_indices d'))" for i
      using np_bincount_zero [OF c(2) that] .
    from c(2) have "length (speakers d) \<le> length counts"
      by (auto simp: np_bincount_def split: if_splits)
    with frame rd True c zero show ?thesis by simp
  qed
qed

theorem remove_classes_frame_witness:
  "fst (remove_classes {''happy''} combined_AB) = Returned () \<and>
   names (snd (remove_classes {''happy''} combined_AB)) = [''A_a1'', ''B_b1''] \<and>
   classes (snd (remove_classes {''happy''} combined_AB)) = [''happy''] \<and>
   speakers (snd (remove_classes {''happy''} combined_AB)) = [''A_X'', ''A_Y'', ''B_Z''] \<and>
   speaker_groups (snd (remove_classes {''happy''} combined_AB))
     = [{''A_X''}, {''A_Y''}, {''B_Z''}] \<and>
   speaker_group_indices (snd (remove_classes {''happy''} combined_AB))
     = speaker_indices (snd (remove_classes {''happy''} combined_AB)) \<and>
   speaker_counts (snd (remove_classes {''happy''} combined_AB)) = Some [1, 0, 1]"
  using remove_classes_frame [where keep = "{''happy''}" and d = combined_AB]
  by (simp add: remove_classes_happy) (simp add: combined_AB_def)

section \<open>Combining corpora\<close>

text \<open>
  Claim C3. Datasets \<open>A\<close> and \<open>B\<close> of the scenario come out of the constructor of
  \<^verbatim>\<open>LabelledDataset\<close>, and combining them with no allow-list gives three instances, the
  classes \<open>happy\<close> and \<open>sad\<close>, the corpus indices \<open>[0, 0, 1]\<close> and the speakers \<open>A_X\<close>,
  \<open>A_Y\<close>, \<open>B_Z\<close>; the names of the instances carry the prefix of their corpus too.
\<close>

theorem CombinedDataset_init_scenario:
  "LabelledDataset_init backends_A Map.empty path_A labels_of_A (Some speakers_of_A)
     = Returned labelled_A \<and>
   LabelledDataset_init backends_B Map.empty path_B labels_of_B (Some speakers_of_B)
     = Returned labelled_B \<and>
   (\<exists>c. CombinedDataset_init [labelled_A, labelled_B] None = Returned c \<and>
      n_instances c = 3 \<and>
      classes c = [''happy'', ''sad''] \<and>
      corpus_indices c = NDArray int64 [0, 0, 1] \<and>
      speakers c = [''A_X'', ''A_Y'', ''B_Z''] \<and>
      names c = [''A_a1'', ''A_a2'', ''B_b1''])"
  by (simp add: LabelledDataset_init_A LabelledDataset_init_B CombinedDataset_init_AB)
     (simp add: combined_AB_def n_instances_def)

text \<open>
  Claim C2, which the code does not meet. Combining \<open>A\<close> and \<open>B\<close> with the allow-list
  \<open>[happy]\<close> drops \<open>a2\<close> from the feature rows, the speaker indices and the labels, two
  entries each afterwards, and keeps it in the names, the corpus indices and the corpus
  counts: three names, so \<^verbatim>\<open>n_instances\<close> is 3.
\<close>

theorem CombinedDataset_init_allow_list_keeps_names:
  "CombinedDataset_init [labelled_A, labelled_B] (Some [''happy'']) =
     Returned
       (combined_AB\<lparr>x_matrix := [[1, 2], [5, 6]], speaker_indices := NDArray int64 [0, 2],
          speaker_group_indices := NDArray int64 [0, 2], classes := [''happy''],
          y_labels := NDArray int64 [0, 0]\<rparr>) \<and>
   names combined_AB = [''A_a1'', ''A_a2'', ''B_b1''] \<and>
   n_instances combined_AB = 3 \<and>
   corpus_indices combined_AB = NDArray int64 [0, 0, 1] \<and>
   corpus_counts combined_AB = [2, 1]"
  by code_simp

lemma length_np_repeat_arange: "length (elems (np_repeat_arange sizes)) = sum_list sizes"
proof -
  have "map (\<lambda>(i, n). length (replicate n i)) (zip [0..<length sizes] sizes)
          = map snd (zip [0..<length sizes] sizes)"
    by (auto simp: case_prod_unfold)
  also have "\<dots> = sizes" by simp
  finally show ?thesis
    by (simp add: np_repeat_arange_def length_concat comp_def case_prod_unfold)
qed

text \<open>
  A combined dataset fresh from the constructor has one corpus index per name when every
  source has one feature entry per name.
\<close>

lemma CombinedDataset_init_corpus_indices:
  assumes "CombinedDataset_init datasets labels = Returned c"
    and "list_all (\<lambda>d. length (x_matrix d) = length (names d)) datasets"
  shows "length (elems (corpus_indices c)) = n_instances c"
proof -
  from assms(1) have
    ci: "corpus_indices c = np_repeat_arange (map (\<lambda>d. length (x_matrix d)) datasets)"
    and nm: "names c = concat (map (\<lambda>d. map (namespaced (corpus d)) (names d)) datasets)"
    unfolding CombinedDataset_init_def Let_def
    by (auto split: sum.splits prod.splits)
  have eq: "map (\<lambda>d. length (x_matrix d)) datasets = map (\<lambda>d. length (names d)) datasets"
    using assms(2) by (simp add: list_all_iff)
  have "length (elems (corpus_indices c)) = sum_list (map (\<lambda>d. length (x_matrix d)) datasets)"
    by (simp add: ci length_np_repeat_arange)
  also have "\<dots> = sum_list (map (\<lambda>d. length (names d)) datasets)"
    by (simp only: eq)
  also have "\<dots> = n_instances c"
    by (simp add: nm n_instances_def length_concat comp_def)
  finally show ?thesis .
qed

text \<open>
  The inherited \<^verbatim>\<open>remove_classes\<close> never touches the corpus index array, so after it the
  array can have more entries than there are instances: three entries for the two
  instances that \<^verbatim>\<open>remove_classes(["happy"])\<close> leaves of the combination of \<open>A\<close> and \<open>B\<close>.
\<close>

lemma remove_classes_corpus_indices:
  "corpus_indices (snd (remove_classes keep c)) = corpus_indices c"
  by (simp add: remove_classes_def Let_def split: sum.splits)

lemma remove_classes_happy_corpus_indices:
  "n_instances (snd (remove_classes {''happy''} combined_AB)) = 2 \<and>
   length (elems (corpus_indices (snd (remove_classes {''happy''} combined_AB)))) = 3"
  by (simp add: remove_classes_happy) (simp add: combined_AB_def n_instances_def)

text \<open>
  What \<^verbatim>\<open>get_corpus_split\<close> does with the corpus index array. For a corpus of the
  corpora list it returns two index arrays: the positions of the corpus index array whose
  entry is the index of that corpus, and the other positions. The two are disjoint, and
  together they are all positions of the corpus index array: all instance positions from
  0 to \<^verbatim>\<open>n_instances - 1\<close> when that array has one entry per instance, as it has after
  construction. On the combination of \<open>A\<close> and \<open>B\<close>, the split for \<open>A\<close> is \<open>[0, 1]\<close> and
  \<open>[2]\<close>.
\<close>

theorem get_corpus_split_partition:
  assumes "corp \<in> set (corpora c)"
  shows "(\<exists>k in_corpus other.
           corpus_to_idx c corp = Inr k \<and> k < length (corpora c) \<and> corpora c ! k = corp \<and>
           get_corpus_split c corp = Inr (in_corpus, other) \<and>
           in_corpus = filter (\<lambda>i. elems (corpus_indices c) ! i = k)
                         [0..<length (elems (corpus_indices c))] \<and>
           other = filter (\<lambda>i. elems (corpus_indices c) ! i \<noteq> k)
                     [0..<length (elems (corpus_indices c))] \<and>
           set in_corpus \<inter> set other = {} \<and>
           set in_corpus \<union> set other = {0..<length (elems (corpus_indices c))} \<and>
           (length (elems (corpus_indices c)) = n_instances c \<longrightarrow>
              set in_corpus \<union> set other = {0..<n_instances c})) \<and>
         CombinedDataset_init [labelled_A, labelled_B] None = Returned combined_AB \<and>
         get_corpus_split combined_AB ''A'' = Inr ([0, 1], [2])"
proof -
  let ?k = "first_index (corpora c) corp"
  have k: "corpus_to_idx c corp = Inr ?k"
    using assms by (simp add: corpus_to_idx_def py_index_def)
  have lt: "?k < length (corpora c)" and at: "corpora c ! ?k = corp"
    using first_index_member [OF assms] by simp_all
  let ?ci = "elems (corpus_indices c)"
  let ?a = "filter (\<lambda>i. ?ci ! i = ?k) [0..<length ?ci]"
  let ?b = "filter (\<lambda>i. ?ci ! i \<noteq> ?k) [0..<length ?ci]"
  have a: "nonzero (map (\<lambda>v. v = ?k) ?ci) = ?a"
    by (rule nonzero_filter)
  have b: "nonzero (map Not (map (\<lambda>v. v = ?k) ?ci)) = ?b"
    by (rule nonzero_filter_Not)
  have split: "get_corpus_split c corp = Inr (?a, ?b)"
    unfolding get_corpus_split_def Let_def k using a b by simp
  have disjoint: "set ?a \<inter> set ?b = {}" by auto
  have cover: "set ?a \<union> set ?b = {0..<length ?ci}" by auto
  have scenario: "get_corpus_split combined_AB ''A'' = Inr ([0, 1], [2])"
    by code_simp
  have cover': "length ?ci = n_instances c \<longrightarrow> set ?a \<union> set ?b = {0..<n_instances c}"
    using cover by metis
  show ?thesis
    using k lt at split disjoint cover cover' scenario CombinedDataset_init_AB by blast
qed

theorem get_corpus_split_partition_witness:
  "''B'' \<in> set (corpora combined_AB) \<and>
   length (elems (corpus_indices combined_AB)) = n_instances combined_AB \<and>
   get_corpus_split combined_AB ''B'' = Inr ([2], [0, 1])"
proof -
  have h1: "''B'' \<in> set (corpora combined_AB)" by (simp add: combined_AB_def)
  have h2: "length (elems (corpus_indices combined_AB)) = n_instances combined_AB"
    by (simp add: combined_AB_def n_instances_def)
  have e: "get_corpus_split combined_AB ''B'' = Inr ([2], [0, 1])" by code_simp
  show ?thesis
    using h1 h2 e get_corpus_split_partition [OF h1] by simp
qed

text \<open>
  Claim C8, which the code does not meet once instances have been removed. A
  \<^verbatim>\<open>CombinedDataset\<close> inherits \<^verbatim>\<open>remove_classes\<close>, which filters the names, the feature
  rows, the speaker indices and the labels and not \<^verbatim>\<open>_corpus_indices\<close>. After
  \<^verbatim>\<open>remove_classes(["happy"])\<close> on the combination of \<open>A\<close> and \<open>B\<close> there are two
  instances, \<open>A_a1\<close> and \<open>B_b1\<close>, and the corpus indices are still \<open>[0, 0, 1]\<close>;
  \<^verbatim>\<open>get_corpus_split("A")\<close> returns \<open>[0, 1]\<close> and \<open>[2]\<close>: position 2 is no instance, and
  position 1, now \<open>B_b1\<close>, is given to corpus \<open>A\<close>. The docstring of the method calls the
  result indices of \<^verbatim>\<open>x\<close> and \<^verbatim>\<open>y\<close>, which have two entries each.
\<close>

theorem get_corpus_split_stale_corpus_indices:
  "CombinedDataset_init [labelled_A, labelled_B] None = Returned combined_AB \<and>
   fst (remove_classes {''happy''} combined_AB) = Returned () \<and>
   names (snd (remove_classes {''happy''} combined_AB)) = [''A_a1'', ''B_b1''] \<and>
   n_instances (snd (remove_classes {''happy''} combined_AB)) = 2 \<and>
   x_matrix (snd (remove_classes {''happy''} combined_AB)) = [[1, 2], [5, 6]] \<and>
   y_labels (snd (remove_classes {''happy''} combined_AB)) = NDArray int64 [0, 0] \<and>
   corpus_indices (snd (remove_classes {''happy''} combined_AB)) = NDArray int64 [0, 0, 1] \<and>
   get_corpus_split (snd (remove_classes {''happy''} combined_AB)) ''A'' = Inr ([0, 1], [2])"
  by code_simp

end
